theory Spec2Isabelle
  imports Main "HOL-Library.AList"
begin

section \<open>Python strings and formatted string literals\<close>

text \<open>
  The module \<^verbatim>\<open>templates/antigravity/specify_mcp.py\<close> defines two prompt
  functions whose bodies are a single \<^verbatim>\<open>return\<close> of a formatted string
  literal (an f-string). A Python \<^verbatim>\<open>str\<close> is modelled as a \<open>string\<close>, read as the
  UTF-8 bytes of the text: concatenation of texts is concatenation of their encodings, and
  the literal parts of both templates are plain ASCII.

  An f-string is a sequence of parts, as in Python's own syntax tree: literal text
  (\<open>Constant\<close>) and replacement fields (\<open>FormattedValue\<close>). Both replacement fields of
  the module, \<^verbatim>\<open>{goal}\<close> and \<^verbatim>\<open>{spec_content}\<close>, have no conversion and no
  format specification, so a \<^verbatim>\<open>str\<close> value is inserted as it is.
\<close>

datatype fpart = Constant string | FormattedValue string

fun format_part :: "fpart \<Rightarrow> string" where
  "format_part (Constant s) = s"
| "format_part (FormattedValue v) = v"

definition joined_str :: "fpart list \<Rightarrow> string" where
  "joined_str ps = concat (map format_part ps)"

section \<open>Program state and computations\<close>

text \<open>
  What a call could touch besides its result: the files of the host, and the module's
  global \<^verbatim>\<open>mcp\<close>, the registry object. The registry maps a prompt name to its
  descriptor, in insertion order as a Python \<^verbatim>\<open>dict\<close> does. A descriptor holds the
  description, the parameter schema (each parameter's name with its annotation as written
  in the source) and a reference to the function object.
\<close>

datatype funcref = Specify | Plan

record prompt =
  description :: string
  arguments :: "(string \<times> string) list"
  prompt_fn :: funcref

record fastmcp =
  server_name :: string
  prompts :: "(string \<times> prompt) list"

record world =
  files :: "(string \<times> string) list"
  mcp :: fastmcp

text \<open>
  A Python computation either raises or returns a value, and may change the world. The
  exception is kept by the name of its class.
\<close>

datatype error = Raised string

type_synonym 'a py = "world \<Rightarrow> (error + 'a) \<times> world"

definition py_return :: "'a \<Rightarrow> 'a py" where
  "py_return x = (\<lambda>w. (Inr x, w))"

section \<open>The prompt generators\<close>

text \<open>
  \<^verbatim>\<open>
  def specify(goal: str):
      """Start the Spec-Driven Development process."""
      return f"Role: AI Architect. Goal: {goal}. Create a SPEC.md file."
  \<close>
\<close>

definition specify :: "string \<Rightarrow> string py" where
  "specify goal =
     py_return (joined_str
       [Constant ''Role: AI Architect. Goal: '',
        FormattedValue goal,
        Constant ''. Create a SPEC.md file.''])"

text \<open>
  \<^verbatim>\<open>
  def plan(spec_content: str):
      """Generate a plan from the spec."""
      return f"Read this spec: {spec_content}. Create a PLAN.md."
  \<close>
\<close>

definition plan :: "string \<Rightarrow> string py" where
  "plan spec_content =
     py_return (joined_str
       [Constant ''Read this spec: '',
        FormattedValue spec_content,
        Constant ''. Create a PLAN.md.''])"

text \<open>Calling a function object runs the function it refers to.\<close>

fun call :: "funcref \<Rightarrow> string \<Rightarrow> string py" where
  "call Specify = specify"
| "call Plan = plan"

text \<open>
  A history of invocations: each entry names the generator called and its argument; the
  world after the history is the world each call leaves to the next. The results of the
  calls in the history are dropped.
\<close>

fun calls :: "(funcref \<times> string) list \<Rightarrow> world \<Rightarrow> world" where
  "calls [] w = w"
| "calls ((f, x) # cs) w = calls cs (snd (call f x w))"

section \<open>Registration\<close>

text \<open>
  What a \<^verbatim>\<open>def\<close> statement gives the decorator: the function's identifier, its
  docstring, its parameters with their annotations, and the function object itself.
\<close>

record pyfunction =
  fn_name :: string
  fn_doc :: string
  fn_params :: "(string \<times> string) list"
  fn_code :: funcref

definition specify_fn :: pyfunction where
  "specify_fn =
     \<lparr>fn_name = ''specify'',
      fn_doc = ''Start the Spec-Driven Development process.'',
      fn_params = [(''goal'', ''str'')],
      fn_code = Specify\<rparr>"

definition plan_fn :: pyfunction where
  "plan_fn =
     \<lparr>fn_name = ''plan'',
      fn_doc = ''Generate a plan from the spec.'',
      fn_params = [(''spec_content'', ''str'')],
      fn_code = Plan\<rparr>"

text \<open>
  Modelled from the spec: the constructor \<^verbatim>\<open>FastMCP\<close> of the host library
  (\<^verbatim>\<open>mcp.server.fastmcp\<close>, imported by the module and not part of the sources). The
  spec calls the registry a mapping from generator name to descriptor, constructed once at
  process start; a new registry has a name and no entry.
\<close>

definition FastMCP :: "string \<Rightarrow> fastmcp" where
  "FastMCP n = \<lparr>server_name = n, prompts = []\<rparr>"

text \<open>
  Modelled from the spec: the decorator \<^verbatim>\<open>mcp.prompt()\<close> of the host library, not
  part of the sources. The spec describes it as a registration call per generator,
  supplying the generator's name (implicitly the function identifier), a human-readable
  description (the docstring) and the callable itself, into a mapping from generator name
  to callable, description and parameter schema. The parameter schema is read off the
  function's parameters. Storing under a name is a dictionary assignment.
\<close>

definition prompt_of :: "pyfunction \<Rightarrow> prompt" where
  "prompt_of f =
     \<lparr>description = fn_doc f, arguments = fn_params f, prompt_fn = fn_code f\<rparr>"

definition register_prompt :: "pyfunction \<Rightarrow> fastmcp \<Rightarrow> fastmcp" where
  "register_prompt f m =
     m\<lparr>prompts := AList.update (fn_name f) (prompt_of f) (prompts m)\<rparr>"

text \<open>
  The module's top-level statements in order: \<^verbatim>\<open>mcp = FastMCP("Spec-Kit")\<close>, then
  the decorated definition of \<^verbatim>\<open>specify\<close>, then that of \<^verbatim>\<open>plan\<close>.
\<close>

definition module_init :: fastmcp where
  "module_init =
     register_prompt plan_fn (register_prompt specify_fn (FastMCP ''Spec-Kit''))"

definition get_prompt_info :: "fastmcp \<Rightarrow> string \<Rightarrow> prompt option" where
  "get_prompt_info m n = map_of (prompts m) n"

definition prompt_names :: "fastmcp \<Rightarrow> string list" where
  "prompt_names m = map fst (prompts m)"

section \<open>Shared facts\<close>

lemma joined_str_three:
  "joined_str [Constant a, FormattedValue v, Constant b] = a @ v @ b"
  by (simp add: joined_str_def)

lemma specify_run:
  "specify g w = (Inr (''Role: AI Architect. Goal: '' @ g @ ''. Create a SPEC.md file.''), w)"
  by (simp add: specify_def py_return_def joined_str_three)

lemma plan_run:
  "plan s w = (Inr (''Read this spec: '' @ s @ ''. Create a PLAN.md.''), w)"
  by (simp add: plan_def py_return_def joined_str_three)

lemma call_world: "snd (call f x w) = w"
  by (cases f) (simp_all add: specify_run plan_run)

lemma calls_world: "calls cs w = w"
  by (induction cs arbitrary: w) (auto simp: call_world)

lemma module_init_prompts:
  "prompts module_init =
     [(''specify'', \<lparr>description = ''Start the Spec-Driven Development process.'',
                     arguments = [(''goal'', ''str'')], prompt_fn = Specify\<rparr>),
      (''plan'', \<lparr>description = ''Generate a plan from the spec.'',
                  arguments = [(''spec_content'', ''str'')], prompt_fn = Plan\<rparr>)]"
  by (simp add: module_init_def register_prompt_def FastMCP_def prompt_of_def
      specify_fn_def plan_fn_def)

section \<open>The generated text\<close>

text \<open>
  Claim C1. For every string \<open>g\<close>, \<open>specify g\<close> returns exactly the text
  \<open>''Role: AI Architect. Goal: ''\<close>, then \<open>g\<close>, then \<open>''. Create a SPEC.md file.''\<close>:
  the argument is inserted verbatim and nothing else is altered. The second conjunct is
  the instance at an argument made of braces and a line feed, which pass through
  unescaped.
\<close>

theorem specify_exact:
  "fst (specify g w) =
     Inr (''Role: AI Architect. Goal: '' @ g @ ''. Create a SPEC.md file.'')
   \<and> fst (specify (''{goal}'' @ [CHR 0x0A] @ ''}{'') w) =
     Inr (''Role: AI Architect. Goal: {goal}'' @ [CHR 0x0A] @ ''}{. Create a SPEC.md file.'')"
  by (simp add: specify_run)

text \<open>
  Claim C2. For every string \<open>s\<close>, \<open>plan s\<close> returns exactly the text
  \<open>''Read this spec: ''\<close>, then \<open>s\<close>, then \<open>''. Create a PLAN.md.''\<close>, with the
  argument inserted verbatim. The second conjunct is the spec's third scenario, an argument
  of two lines: the line feed is preserved.
\<close>

theorem plan_exact:
  "fst (plan s w) = Inr (''Read this spec: '' @ s @ ''. Create a PLAN.md.'')
   \<and> fst (plan (''## Overview'' @ [CHR 0x0A] @ ''Do X'') w) =
     Inr (''Read this spec: ## Overview'' @ [CHR 0x0A] @ ''Do X. Create a PLAN.md.'')"
  by (simp add: plan_run)

text \<open>
  Claim C7. For the empty argument, \<open>specify\<close> returns exactly
  \<open>''Role: AI Architect. Goal: . Create a SPEC.md file.''\<close>: nothing stands between
  \<open>''Goal: ''\<close> and the full stop after it.
\<close>

theorem specify_empty:
  "fst (specify [] w) = Inr ''Role: AI Architect. Goal: . Create a SPEC.md file.''"
  by (simp add: specify_run)

text \<open>
  Claim C9. Each generator is injective and the two ranges are disjoint: two calls of
  \<open>specify\<close> return the same text exactly when their arguments are equal, the same holds
  of \<open>plan\<close>, and no text returned by \<open>specify\<close> is returned by \<open>plan\<close>, whatever the
  worlds the calls run in.
\<close>

theorem generators_injective_disjoint:
  "(fst (specify a w) = fst (specify b w') \<longleftrightarrow> a = b)
   \<and> (fst (plan a w) = fst (plan b w') \<longleftrightarrow> a = b)
   \<and> fst (specify a w) \<noteq> fst (plan b w')"
proof (intro conjI)
  show "fst (specify a w) = fst (specify b w') \<longleftrightarrow> a = b"
    by (simp add: specify_run)
  show "fst (plan a w) = fst (plan b w') \<longleftrightarrow> a = b"
    by (simp add: plan_run)
  show "fst (specify a w) \<noteq> fst (plan b w')"
    by (simp add: specify_run plan_run)
qed

section \<open>Totality, determinism and effects\<close>

text \<open>
  Claim C5. For every argument, both generators are total and cannot fail: in any world
  each returns a string, and the result is never an exception.
\<close>

theorem generators_total:
  "(\<exists>r. fst (specify g w) = Inr r) \<and> (\<exists>r. fst (plan s w) = Inr r)
   \<and> fst (specify g w) \<noteq> Inl e \<and> fst (plan s w) \<noteq> Inl e"
  by (simp add: specify_run plan_run)

text \<open>
  Claim C3. Both generators are deterministic: two invocations of \<open>specify\<close>, or of
  \<open>plan\<close>, on the same argument return the same result in any two worlds. No hidden state
  accumulates: after any history \<open>cs\<close> of calls to either generator, a call to either
  generator returns what it would have returned without that history.
\<close>

theorem generators_deterministic:
  "fst (specify g w) = fst (specify g w')
   \<and> fst (plan s w) = fst (plan s w')
   \<and> fst (call f x (calls cs w)) = fst (call f x w)"
proof -
  have "calls cs w = w"
    by (induction cs arbitrary: w) (auto simp: call_world)
  then have "fst (call f x (calls cs w)) = fst (call f x w)"
    by simp
  moreover have "fst (specify g w) = fst (specify g w')"
    by (simp add: specify_run)
  moreover have "fst (plan s w) = fst (plan s w')"
    by (simp add: plan_run)
  ultimately show ?thesis
    by simp
qed

text \<open>
  Claim C8. Neither generator has a side effect: a call leaves the whole world as it was,
  so it writes no file and changes neither the registry nor anything else outside the
  returned string; and it reads no file, since the result is the same whatever the files
  hold. The names \<^verbatim>\<open>SPEC.md\<close> and \<^verbatim>\<open>PLAN.md\<close> occur in the returned text only.
\<close>

theorem generators_no_side_effect:
  "snd (specify g w) = w \<and> snd (plan s w) = w
   \<and> fst (specify g (w\<lparr>files := fs\<rparr>)) = fst (specify g w)
   \<and> fst (plan s (w\<lparr>files := fs\<rparr>)) = fst (plan s w)"
  by (simp add: specify_run plan_run)

section \<open>The registry\<close>

text \<open>
  Claim C6. The registry built by the module's top-level statements, before any
  invocation, has an entry under each of the names \<open>''specify''\<close> and \<open>''plan''\<close>, with
  the descriptions \<open>''Start the Spec-Driven Development process.''\<close> and
  \<open>''Generate a plan from the spec.''\<close>.
\<close>

theorem registry_descriptions:
  "map_option description (get_prompt_info module_init ''specify'') =
     Some ''Start the Spec-Driven Development process.''
   \<and> map_option description (get_prompt_info module_init ''plan'') =
     Some ''Generate a plan from the spec.''"
  by (simp add: get_prompt_info_def module_init_prompts)

text \<open>
  Claim C10. The registry has exactly two entries, under the names \<open>''specify''\<close> and
  \<open>''plan''\<close> and no other, and it is never modified after the module's initialisation:
  the global \<^verbatim>\<open>mcp\<close> is the same after any history of calls to the generators.
\<close>

theorem registry_exactly_two:
  "prompt_names module_init = [''specify'', ''plan'']
   \<and> set (prompt_names module_init) = {''specify'', ''plan''}
   \<and> length (prompts module_init) = 2
   \<and> mcp (calls cs w) = mcp w"
  by (simp add: prompt_names_def module_init_prompts calls_world)

text \<open>
  Claim C4, as stated, fails: the parameter schema registered for \<open>plan\<close> is not a single
  string parameter named \<open>specContent\<close>.
\<close>

theorem plan_parameter_not_specContent:
  "map_option arguments (get_prompt_info module_init ''plan'')
     \<noteq> Some [(''specContent'', ''str'')]"
  by (simp add: get_prompt_info_def module_init_prompts)

text \<open>
  Claim C4, amended. The descriptor registered for \<open>plan\<close> declares exactly one
  parameter, annotated \<^verbatim>\<open>str\<close> and named \<open>spec_content\<close>, the name the source gives
  the parameter of \<open>plan\<close>.
\<close>

theorem plan_parameter_spec_content:
  "map_option arguments (get_prompt_info module_init ''plan'')
     = Some [(''spec_content'', ''str'')]"
  by (simp add: get_prompt_info_def module_init_prompts)

end
